theory Spec2Isabelle
  imports Complex_Main "HOL-Library.AList"
begin

section \<open>JavaScript values\<close>

text \<open>
  The profiling helper works on parsed JSON and on the localized message table, both
  plain JavaScript data.  A value is one of the JSON shapes, or \<open>undefined\<close> (what a
  read of a missing property gives).  An object is the list of its own properties in
  the order \<open>Object.keys\<close> enumerates them, with distinct keys.  Numbers are the
  integers (the queue figures are counts); \<open>NaN\<close> only arises from arithmetic and is
  the \<open>None\<close> of \<open>int option\<close>.  A string is a list of code units, \<open>char\<close> standing for
  one unit.  Members inherited from the built-in prototypes are not part of a value:
  the built-in methods the components call are the functions below.
\<close>

datatype jsval =
    JUndefined
  | JNull
  | JBool bool
  | JNum int
  | JStr string
  | JArr "jsval list"
  | JObj "(string \<times> jsval) list"

datatype error = TypeError

fun js_truthy :: "jsval \<Rightarrow> bool" where
  "js_truthy JUndefined = False"
| "js_truthy JNull = False"
| "js_truthy (JBool b) = b"
| "js_truthy (JNum n) = (n \<noteq> 0)"
| "js_truthy (JStr s) = (s \<noteq> [])"
| "js_truthy (JArr xs) = True"
| "js_truthy (JObj kvs) = True"

fun nullish :: "jsval \<Rightarrow> bool" where
  "nullish JUndefined = True"
| "nullish JNull = True"
| "nullish v = False"

subsection \<open>Conversion to string (template literals, \<open>join\<close>)\<close>

fun show_nat :: "nat \<Rightarrow> string" where
  "show_nat n =
     (if n < 10 then [''0123456789'' ! n]
      else show_nat (n div 10) @ [''0123456789'' ! (n mod 10)])"

declare show_nat.simps [simp del]

definition show_int :: "int \<Rightarrow> string" where
  "show_int i = (if i < 0 then CHR ''-'' # show_nat (nat (- i)) else show_nat (nat i))"

fun join_with :: "string \<Rightarrow> string list \<Rightarrow> string" where
  "join_with sep [] = []"
| "join_with sep [x] = x"
| "join_with sep (x # y # r) = x @ sep @ join_with sep (y # r)"

fun ToString :: "jsval \<Rightarrow> string" where
  "ToString JUndefined = ''undefined''"
| "ToString JNull = ''null''"
| "ToString (JBool b) = (if b then ''true'' else ''false'')"
| "ToString (JNum n) = show_int n"
| "ToString (JStr s) = s"
| "ToString (JArr xs) =
     join_with '',''
       (map (\<lambda>x. case x of JUndefined \<Rightarrow> [] | JNull \<Rightarrow> [] | _ \<Rightarrow> ToString x) xs)"
| "ToString (JObj kvs) = ''[object Object]''"

text \<open>The string of a number that may be \<open>NaN\<close>.\<close>

definition num_str :: "int option \<Rightarrow> string" where
  "num_str r = (case r of None \<Rightarrow> ''NaN'' | Some n \<Rightarrow> show_int n)"

subsection \<open>Property access\<close>

text \<open>
  \<open>index_of k n\<close> is the array index below \<open>n\<close> that the property name \<open>k\<close> denotes,
  if any.
\<close>

definition index_of :: "string \<Rightarrow> nat \<Rightarrow> nat option" where
  "index_of k n = find (\<lambda>i. show_nat i = k) [0..<n]"

fun own_prop :: "jsval \<Rightarrow> string \<Rightarrow> jsval" where
  "own_prop (JObj kvs) k = (case map_of kvs k of None \<Rightarrow> JUndefined | Some v \<Rightarrow> v)"
| "own_prop (JArr xs) k =
     (if k = ''length'' then JNum (int (length xs))
      else case index_of k (length xs) of None \<Rightarrow> JUndefined | Some i \<Rightarrow> xs ! i)"
| "own_prop (JStr s) k =
     (if k = ''length'' then JNum (int (length s))
      else case index_of k (length s) of None \<Rightarrow> JUndefined | Some i \<Rightarrow> JStr [s ! i])"
| "own_prop v k = JUndefined"

text \<open>\<open>v[k]\<close> and \<open>v.k\<close>: a read on \<open>undefined\<close> or \<open>null\<close> throws.\<close>

definition js_get :: "jsval \<Rightarrow> string \<Rightarrow> error + jsval" where
  "js_get v k = (if nullish v then Inl TypeError else Inr (own_prop v k))"

fun hasOwnProperty :: "jsval \<Rightarrow> string \<Rightarrow> error + bool" where
  "hasOwnProperty JUndefined k = Inl TypeError"
| "hasOwnProperty JNull k = Inl TypeError"
| "hasOwnProperty (JObj kvs) k = Inr (k \<in> set (map fst kvs))"
| "hasOwnProperty (JArr xs) k = Inr (k = ''length'' \<or> index_of k (length xs) \<noteq> None)"
| "hasOwnProperty (JStr s) k = Inr (k = ''length'' \<or> index_of k (length s) \<noteq> None)"
| "hasOwnProperty v k = Inr False"

fun Object_keys :: "jsval \<Rightarrow> string list" where
  "Object_keys (JObj kvs) = map fst kvs"
| "Object_keys (JArr xs) = map show_nat [0..<length xs]"
| "Object_keys (JStr s) = map show_nat [0..<length s]"
| "Object_keys v = []"

subsection \<open>Conversion to number, comparison, subtraction\<close>

definition is_ws :: "char \<Rightarrow> bool" where
  "is_ws c = (c \<in> set [CHR '' '', CHR 0x09, CHR 0x0A, CHR 0x0B, CHR 0x0C, CHR 0x0D])"

definition trim :: "string \<Rightarrow> string" where
  "trim s = rev (dropWhile is_ws (rev (dropWhile is_ws s)))"

definition digits_val :: "string \<Rightarrow> nat option" where
  "digits_val ds =
     (if ds \<noteq> [] \<and> list_all (\<lambda>c. c \<in> set ''0123456789'') ds
      then Some (foldl (\<lambda>n c. 10 * n + (of_char c - 48)) 0 ds) else None)"

text \<open>
  A string converts to the integer it spells in decimal, blank to zero, anything else
  to \<open>NaN\<close>.  (Literals with a fraction, an exponent or a radix prefix spell numbers
  outside the integers of this model; the components never build one.)
\<close>

definition StringToNumber :: "string \<Rightarrow> int option" where
  "StringToNumber s =
     (case trim s of
        [] \<Rightarrow> Some 0
      | c # r \<Rightarrow>
          if c = CHR ''-'' then map_option (\<lambda>n. - int n) (digits_val r)
          else if c = CHR ''+'' then map_option int (digits_val r)
          else map_option int (digits_val (c # r)))"

definition ToPrimitive :: "jsval \<Rightarrow> jsval" where
  "ToPrimitive v = (case v of JArr xs \<Rightarrow> JStr (ToString v) | JObj kvs \<Rightarrow> JStr (ToString v) | _ \<Rightarrow> v)"

definition ToNumber :: "jsval \<Rightarrow> int option" where
  "ToNumber v =
     (case ToPrimitive v of
        JUndefined \<Rightarrow> None
      | JNull \<Rightarrow> Some 0
      | JBool b \<Rightarrow> Some (if b then 1 else 0)
      | JNum n \<Rightarrow> Some n
      | JStr s \<Rightarrow> StringToNumber s
      | _ \<Rightarrow> None)"

fun str_lt :: "string \<Rightarrow> string \<Rightarrow> bool" where
  "str_lt [] [] = False"
| "str_lt [] (y # ys) = True"
| "str_lt (x # xs) [] = False"
| "str_lt (x # xs) (y # ys) =
     ((of_char x :: nat) < of_char y \<or> (x = y \<and> str_lt xs ys))"

text \<open>
  The relational comparison \<open>a < b\<close>: two strings compare by code units, anything else
  numerically; \<open>None\<close> is the undefined outcome of a comparison with \<open>NaN\<close>.
\<close>

definition rel_lt :: "jsval \<Rightarrow> jsval \<Rightarrow> bool option" where
  "rel_lt a b =
     (case (ToPrimitive a, ToPrimitive b) of
        (JStr x, JStr y) \<Rightarrow> Some (str_lt x y)
      | (pa, pb) \<Rightarrow>
          (case (ToNumber pa, ToNumber pb) of
             (Some x, Some y) \<Rightarrow> Some (x < y)
           | _ \<Rightarrow> None))"

definition js_lt :: "jsval \<Rightarrow> jsval \<Rightarrow> bool" where
  "js_lt a b = (rel_lt a b = Some True)"

definition js_gt :: "jsval \<Rightarrow> jsval \<Rightarrow> bool" where
  "js_gt a b = (rel_lt b a = Some True)"

definition js_ge :: "jsval \<Rightarrow> jsval \<Rightarrow> bool" where
  "js_ge a b = (rel_lt a b = Some False)"

definition js_sub :: "jsval \<Rightarrow> jsval \<Rightarrow> int option" where
  "js_sub a b =
     (case (ToNumber a, ToNumber b) of (Some x, Some y) \<Rightarrow> Some (x - y) | _ \<Rightarrow> None)"

subsection \<open>\<open>String.prototype.replace\<close> with a string pattern, \<open>endsWith\<close>\<close>

text \<open>\<open>find_sub pat s\<close> splits \<open>s\<close> around the first occurrence of \<open>pat\<close>.\<close>

fun find_sub :: "string \<Rightarrow> string \<Rightarrow> (string \<times> string) option" where
  "find_sub pat [] = (if pat = [] then Some ([], []) else None)"
| "find_sub pat (c # cs) =
     (if take (length pat) (c # cs) = pat then Some ([], drop (length pat) (c # cs))
      else map_option (\<lambda>(b, a). (c # b, a)) (find_sub pat cs))"

text \<open>
  The replacement text is expanded: \<open>$$\<close> is a dollar sign, \<open>$&\<close> the matched text,
  \<open>$`\<close> the text before the match and \<open>$'\<close> the text after it.
\<close>

fun expand :: "string \<Rightarrow> string \<Rightarrow> string \<Rightarrow> string \<Rightarrow> string" where
  "expand m b a (c # d # r) =
     (if c = CHR ''$'' then
        (if d = CHR ''$'' then CHR ''$'' # expand m b a r
         else if d = CHR ''&'' then m @ expand m b a r
         else if d = CHR 0x60 then b @ expand m b a r
         else if d = CHR 0x27 then a @ expand m b a r
         else c # expand m b a (d # r))
      else c # expand m b a (d # r))"
| "expand m b a r = r"

definition js_replace :: "string \<Rightarrow> string \<Rightarrow> string \<Rightarrow> string" where
  "js_replace s pat rep =
     (case find_sub pat s of
        None \<Rightarrow> s
      | Some (b, a) \<Rightarrow> b @ expand pat b a rep @ a)"

definition endsWith :: "string \<Rightarrow> string \<Rightarrow> bool" where
  "endsWith s suf = (length suf \<le> length s \<and> drop (length s - length suf) s = suf)"

section \<open>The SVG wrapper (\<open>svg-wrapper.vue\<close>)\<close>

record svg_wrapper =
  width :: int
  height :: int

definition svg_data :: svg_wrapper where
  "svg_data = \<lparr>width = 0, height = 0\<rparr>"

text \<open>The part of \<open>getBoundingClientRect()\<close> that \<open>mounted\<close> destructures.\<close>

record dom_rect =
  rect_width :: real
  rect_height :: real

definition svg_mounted :: "dom_rect \<Rightarrow> svg_wrapper \<Rightarrow> svg_wrapper" where
  "svg_mounted r s = s\<lparr>width := \<lfloor>rect_width r\<rfloor>, height := \<lfloor>rect_height r\<rfloor>\<rparr>"

text \<open>
  The template: the \<open>svg\<close> element exists under \<open>v-if="width > 0 && height > 0"\<close>, with
  its attributes and the properties handed to the \<open>image\<close> slot.
\<close>

record svg_element =
  attr_width :: int
  attr_height :: int
  viewBox :: string
  slot_width :: int
  slot_height :: int

definition svg_render :: "svg_wrapper \<Rightarrow> svg_element option" where
  "svg_render s =
     (if width s > 0 \<and> height s > 0 then
        Some \<lparr>attr_width = width s, attr_height = height s,
              viewBox = ''0 0 '' @ show_int (width s) @ '' '' @ show_int (height s),
              slot_width = width s, slot_height = height s\<rparr>
      else None)"

text \<open>
  What happens to the component: it is mounted, or its container changes size later.
  The component defines the \<open>mounted\<close> hook and nothing else, so a resize runs no code.
\<close>

datatype svg_event = Mounted dom_rect | ContainerResized dom_rect

fun svg_handle :: "svg_event \<Rightarrow> svg_wrapper \<Rightarrow> svg_wrapper" where
  "svg_handle (Mounted r) s = svg_mounted r s"
| "svg_handle (ContainerResized r) s = s"

section \<open>The profiling helper panel\<close>

subsection \<open>Component state\<close>

text \<open>
  The fields of \<open>data()\<close> that the methods read or write after the request is sent,
  the message table that \<open>this.$t(`profiling`)\<close> returns (the component assigns into
  it), and the two containers of the template by element id, each with its
  \<open>innerHTML\<close>.  An id without an entry is an element that
  \<open>document.getElementById\<close> does not find.  \<open>innerHTML_writes\<close> lists the
  assignments to \<open>innerHTML\<close> in the order they happen.
\<close>

record panel =
  profiling :: "(string \<times> jsval) list"
  helperUrl :: string
  adviceShow :: string
  adviceOptimize :: bool
  adviceNotOptimize :: bool
  elements :: "(string \<times> string) list"
  innerHTML_writes :: "(string \<times> string) list"

definition tipsArrayList :: "string list" where
  "tipsArrayList =
     [''step_trace-iter_interval'',
      ''minddata_pipeline-general'',
      ''minddata_pipeline-dataset_op'',
      ''minddata_pipeline-generator_op'',
      ''minddata_pipeline-map_op'',
      ''minddata_pipeline-batch_op'',
      ''minddata_cpu_utilization'',
      ''minddata_device_queue_rate'']"

definition moreParameter :: "string list" where
  "moreParameter = [''minddata_device_queue'', ''minddata_get_next_queue'', ''device_queue_warning'']"

text \<open>
  The state \<open>data()\<close> returns, over a given message table, with the template's two empty
  containers; \<open>created\<close> then sets the URL key.
\<close>

definition panel_data :: "(string \<times> jsval) list \<Rightarrow> panel" where
  "panel_data messages =
     \<lparr>profiling = messages, helperUrl = [], adviceShow = ''none'',
      adviceOptimize = False, adviceNotOptimize = False,
      elements = [(''helper-tips'', []), (''ms-advice-content'', [])],
      innerHTML_writes = []\<rparr>"

definition created :: "panel \<Rightarrow> panel" where
  "created s = s\<lparr>helperUrl := ''url''\<rparr>"

text \<open>\<open>this.$t(`profiling`)[item]\<close>\<close>

definition profiling_item :: "panel \<Rightarrow> string \<Rightarrow> jsval" where
  "profiling_item s item = (case map_of (profiling s) item of None \<Rightarrow> JUndefined | Some v \<Rightarrow> v)"

text \<open>\<open>const e = document.getElementById(id); if (e) e.innerHTML = html\<close>\<close>

definition set_innerHTML :: "string \<Rightarrow> string \<Rightarrow> panel \<Rightarrow> panel" where
  "set_innerHTML ident html s =
     (case map_of (elements s) ident of
        None \<Rightarrow> s
      | Some old \<Rightarrow>
          s\<lparr>elements := AList.update ident html (elements s),
            innerHTML_writes := innerHTML_writes s @ [(ident, html)]\<rparr>)"

definition innerHTML :: "panel \<Rightarrow> string \<Rightarrow> string option" where
  "innerHTML s ident = map_of (elements s) ident"

text \<open>Sequencing of steps that may throw.\<close>

definition and_then :: "error + 'a \<Rightarrow> ('a \<Rightarrow> error + 'b) \<Rightarrow> error + 'b" where
  "and_then m f = (case m of Inl e \<Rightarrow> Inl e | Inr x \<Rightarrow> f x)"

subsection \<open>The markup of the fragments\<close>

definition title_fragment :: "string \<Rightarrow> string" where
  \<open>title_fragment desc =
     ''<div class="suggested-items-style">\<newline>'' @
     ''                         <div class="helper-icon"></div>\<newline>'' @
     ''                         <div class="helper-container-title">\<newline>'' @
     ''                           '' @ desc @ ''\<newline>'' @
     ''                         </div>\<newline>'' @
     ''                       </div>''\<close>

definition content_fragment :: "string \<Rightarrow> string" where
  \<open>content_fragment content =
     ''<div class="content-style">\<newline>'' @
     ''                         <div class="content-icon el-icon-caret-right"></div>\<newline>'' @
     ''                         <div class="helper-content-style">'' @ content @ ''</div>\<newline>'' @
     ''                       </div>''\<close>

definition anchor_single_fragment :: "string \<Rightarrow> string \<Rightarrow> string" where
  \<open>anchor_single_fragment href desc =
     ''<div class="content-style">\<newline>'' @
     ''                           <div class="content-icon el-icon-caret-right"></div>\<newline>'' @
     ''                           <div class="helper-content-style">\<newline>'' @
     ''                             <a target="_blank" href="'' @ href @ ''">\<newline>'' @
     ''                               '' @ desc @ ''\<newline>'' @
     ''                             </a>\<newline>'' @
     ''                           </div>\<newline>'' @
     ''                         </div>''\<close>

definition anchor_link :: "string \<Rightarrow> string \<Rightarrow> string" where
  \<open>anchor_link href anchor =
     ''<a target="_blank" href="'' @ href @ ''">\<newline>'' @
     ''                      '' @ anchor @ ''</a>''\<close>

definition anchor_fragment :: "string \<Rightarrow> string" where
  \<open>anchor_fragment anchorContent =
     ''<div class="content-style">\<newline>'' @
     ''                           <div class="content-icon el-icon-caret-right"></div>\<newline>'' @
     ''                           <div class="helper-content-style">'' @ anchorContent @ ''</div>\<newline>'' @
     ''                         </div>''\<close>

definition default_fragment :: "string \<Rightarrow> string" where
  \<open>default_fragment desc =
     ''<div class="content-style">\<newline>'' @
     ''                         '' @ desc @ ''\<newline>'' @
     ''                       </div>''\<close>

definition nowrap :: "string \<Rightarrow> string" where
  \<open>nowrap x = ''<span class="nowrap-style"> '' @ x @ ''</span>''\<close>

subsection \<open>The branches of the dispatch\<close>

text \<open>
  The localization facility \<open>this.$t\<close> is a parameter \<open>t\<close>: \<open>t path params\<close> is
  \<open>this.$t(path, params)\<close>, and \<open>t path JUndefined\<close> is \<open>this.$t(path)\<close>.  The one
  exception is \<open>this.$t(`profiling`)\<close>, the table held in the state, because the
  dispatch assigns into it.  The texts read through \<open>t\<close> are the two variants of
  \<open>minddata_device_queue_rate\<close>, a name the dispatch never assigns to, and the
  ordinal list \<open>adviceDetails\<close>, taken to be fixed (no field of a response is
  expected under that name).
\<close>

type_synonym i18n = "string \<Rightarrow> jsval \<Rightarrow> jsval"

definition title_item :: "panel \<Rightarrow> string \<Rightarrow> error + string" where
  "title_item s item =
     and_then (js_get (profiling_item s item) ''desc'') (\<lambda>desc.
       Inr (title_fragment (ToString desc)))"

definition rate_content :: "i18n \<Rightarrow> string \<Rightarrow> jsval \<Rightarrow> error + string" where
  "rate_content t item v =
     and_then (js_get v ''empty_rate'') (\<lambda>empty_rate.
     and_then (js_get v ''empty_warning_threshold'') (\<lambda>empty_warning_threshold.
       if js_gt empty_rate empty_warning_threshold
       then Inr (ToString (t (''profiling.'' @ item @ ''.empty_rate'') v))
       else Inr (ToString (t (''profiling.'' @ item @ ''.empty_warning_threshold'') v))))"

definition tip_content :: "panel \<Rightarrow> string \<Rightarrow> jsval \<Rightarrow> error + string" where
  "tip_content s item v =
     and_then (js_get (profiling_item s item) ''desc'') (\<lambda>desc.
     and_then (js_get v ''0'') (\<lambda>n1.
       Inr (js_replace (ToString desc) ''{n1}'' (ToString n1))))"

definition tips_item :: "i18n \<Rightarrow> panel \<Rightarrow> string \<Rightarrow> jsval \<Rightarrow> error + string" where
  "tips_item t s item v =
     and_then
       (if item = ''minddata_device_queue_rate'' then rate_content t item v
        else tip_content s item v)
       (\<lambda>content. Inr (content_fragment content))"

text \<open>\<open>const [queueStart, queueEnd] = v\<close>: only arrays and strings can be iterated.\<close>

definition destructure_pair :: "jsval \<Rightarrow> error + jsval \<times> jsval" where
  "destructure_pair v =
     (case v of
        JArr xs \<Rightarrow> Inr (own_prop v ''0'', own_prop v ''1'')
      | JStr cs \<Rightarrow> Inr (own_prop v ''0'', own_prop v ''1'')
      | _ \<Rightarrow> Inl TypeError)"

text \<open>\<open>q >= 0 ? q : '--'\<close>\<close>

definition or_dash :: "jsval \<Rightarrow> jsval" where
  "or_dash q = (if js_ge q (JNum 0) then q else JStr ''--'')"

text \<open>
  The blocks for \<open>minddata_device_queue\<close> and \<open>minddata_get_next_queue\<close> are the same
  code up to the names of their variables; \<open>queueEmpty\<close> is \<open>deviceEmpty\<close> or
  \<open>getNextEmpty\<close>, \<open>queueTotal\<close> is \<open>deviceTotal\<close> or \<open>getNextTotal\<close>.
\<close>

definition queue_item :: "panel \<Rightarrow> string \<Rightarrow> jsval \<Rightarrow> error + string" where
  "queue_item s item v =
     and_then (destructure_pair v) (\<lambda>(queueStart, queueEnd).
       let queueEmpty = or_dash queueStart;
           queueTotal = or_dash queueEnd
       in and_then (js_get (profiling_item s item) ''desc'') (\<lambda>desc.
            Inr (content_fragment
              (js_replace
                (js_replace
                  (js_replace
                    (js_replace (ToString desc)
                      ''{n1}'' (nowrap (ToString queueEmpty)))
                    ''{n2}'' (nowrap (ToString queueTotal)))
                  ''{n3}'' (nowrap (num_str (js_sub queueTotal queueEmpty))))
                ''{n4}'' (nowrap (ToString queueTotal))))))"

text \<open>\<open>item === 'device_queue_warning' && res.data[item].length\<close>\<close>

definition warning_guard :: "string \<Rightarrow> jsval \<Rightarrow> error + bool" where
  "warning_guard item v =
     (if item = ''device_queue_warning''
      then and_then (js_get v ''length'') (\<lambda>n. Inr (js_truthy n))
      else Inr False)"

definition warning_item :: "panel \<Rightarrow> string \<Rightarrow> error + string" where
  "warning_item s item =
     and_then (js_get (profiling_item s item) ''desc'') (\<lambda>desc.
       Inr (content_fragment (ToString desc)))"

text \<open>
  \<open>anchorContent.relpace(a, b)\<close>: no value has a member of that name, so after the
  arguments are evaluated the call throws (as does the read of the member when
  \<open>anchorContent\<close> is \<open>undefined\<close> or \<open>null\<close>).
\<close>

definition relpace :: "jsval \<Rightarrow> jsval \<Rightarrow> string \<Rightarrow> error + jsval" where
  "relpace anchorContent a b = Inl TypeError"

text \<open>The loop \<open>for (let i = 0; i < anchorList.length; i++)\<close>, from a given \<open>i\<close>.\<close>

function anchor_loop :: "panel \<Rightarrow> string \<Rightarrow> jsval \<Rightarrow> nat \<Rightarrow> jsval \<Rightarrow> error + jsval" where
  "anchor_loop s item anchorList i anchorContent =
     (if js_lt (JNum (int i)) (own_prop anchorList ''length'') then
        and_then (js_get anchorList (show_nat i)) (\<lambda>a.
        and_then (js_get (profiling_item s item) (helperUrl s)) (\<lambda>urls.
        and_then (js_get urls (show_nat i)) (\<lambda>href.
        and_then (relpace anchorContent a (anchor_link (ToString href) (ToString a))) (\<lambda>desc.
          anchor_loop s item anchorList (Suc i) desc))))
      else Inr anchorContent)"
  by pat_completeness auto
termination
proof (relation "measure (\<lambda>(s, item, anchorList, i, anchorContent).
    case ToNumber (own_prop anchorList ''length'') of None \<Rightarrow> 0 | Some n \<Rightarrow> nat (n - int i))")
  show "wf (measure (\<lambda>(s, item, anchorList, i, anchorContent).
    case ToNumber (own_prop anchorList ''length'') of None \<Rightarrow> 0 | Some n \<Rightarrow> nat (n - int i)))"
    by simp
next
  fix s :: panel and item :: string and anchorList :: jsval and i :: nat
    and anchorContent x xa xb xc :: jsval
  assume "js_lt (JNum (int i)) (own_prop anchorList ''length'')"
  then obtain n where "ToNumber (own_prop anchorList ''length'') = Some n" "int i < n"
    by (auto simp: js_lt_def rel_lt_def ToPrimitive_def ToNumber_def
        split: jsval.splits option.splits)
  then show "((s, item, anchorList, Suc i, xc), (s, item, anchorList, i, anchorContent))
    \<in> measure (\<lambda>(s, item, anchorList, i, anchorContent).
      case ToNumber (own_prop anchorList ''length'') of None \<Rightarrow> 0 | Some n \<Rightarrow> nat (n - int i))"
    by simp
qed

declare anchor_loop.simps [simp del]

definition anchor_item :: "panel \<Rightarrow> string \<Rightarrow> jsval \<Rightarrow> error + string" where
  "anchor_item s item anchor =
     (if own_prop anchor ''length'' = JNum 1 then
        and_then (js_get (profiling_item s item) (helperUrl s)) (\<lambda>urls.
        and_then (js_get urls ''0'') (\<lambda>href.
        and_then (js_get (profiling_item s item) ''desc'') (\<lambda>desc.
          Inr (anchor_single_fragment (ToString href) (ToString desc)))))
      else
        and_then (js_get (profiling_item s item) ''desc'') (\<lambda>desc.
        and_then (anchor_loop s item anchor 0 desc) (\<lambda>anchorContent.
          Inr (anchor_fragment (ToString anchorContent)))))"

definition default_item :: "panel \<Rightarrow> string \<Rightarrow> error + string" where
  "default_item s item =
     and_then (js_get (profiling_item s item) ''desc'') (\<lambda>desc.
       Inr (default_fragment (ToString desc)))"

text \<open>The last two branches: \<open>else if (this.$t(`profiling`)[item].anchor) ... else ...\<close>\<close>

definition anchor_or_default :: "panel \<Rightarrow> string \<Rightarrow> error + string" where
  "anchor_or_default s item =
     and_then (js_get (profiling_item s item) ''anchor'') (\<lambda>anchor.
       if js_truthy anchor then anchor_item s item anchor else default_item s item)"

subsection \<open>\<open>getAdvisorProposer\<close>\<close>

definition recommendation_title :: string where
  "recommendation_title = ''Recommendations of aicpu operations optimization:''"

text \<open>\<open>item.value[0].forEach((val, index) => { detail += ... })\<close>, from a given index.\<close>

fun detail_loop :: "i18n \<Rightarrow> jsval list \<Rightarrow> nat \<Rightarrow> string \<Rightarrow> error + string" where
  "detail_loop t [] index detail = Inr detail"
| "detail_loop t (val # vals) index detail =
     and_then (js_get (t ''profiling.adviceDetails'' JUndefined) (show_nat index)) (\<lambda>d.
       detail_loop t vals (Suc index) (detail @ ''<p>'' @ ToString d @ ''</p>''))"

text \<open>\<open>forEach\<close> is a method of arrays only.\<close>

definition array_elems :: "jsval \<Rightarrow> error + jsval list" where
  "array_elems v = (case v of JArr xs \<Rightarrow> Inr xs | _ \<Rightarrow> Inl TypeError)"

text \<open>The body of \<open>data[item].extend.forEach((item) => ...)\<close> for one entry.\<close>

definition extend_entry :: "i18n \<Rightarrow> jsval \<Rightarrow> string list \<Rightarrow> error + string list" where
  \<open>extend_entry t item contents =
     and_then (hasOwnProperty item ''extendtitle'') (\<lambda>has.
       if has then
         (if own_prop item ''extendtitle'' = JStr recommendation_title then
            and_then (js_get (own_prop item ''value'') ''0'') (\<lambda>value0.
            and_then (array_elems value0) (\<lambda>vals.
            and_then (detail_loop t vals 0 ''<span class="expert-advice"><span class="advice-detail">'') (\<lambda>detail.
              Inr (contents @ [detail @ ''</span></span>'']))))
          else Inr contents)
       else Inr contents)\<close>

fun extend_loop :: "i18n \<Rightarrow> jsval list \<Rightarrow> string list \<Rightarrow> error + string list" where
  "extend_loop t [] contents = Inr contents"
| "extend_loop t (item # items) contents =
     and_then (extend_entry t item contents) (\<lambda>contents'. extend_loop t items contents')"

text \<open>
  The flags are fields of the component, so a flag set before a later step throws
  stays set: the result pairs the outcome with the state.
\<close>

definition getAdvisorProposer ::
    "i18n \<Rightarrow> jsval \<Rightarrow> string \<Rightarrow> panel \<Rightarrow> (error + string list) \<times> panel" where
  "getAdvisorProposer t data item s =
     (case js_get data item of
        Inl e \<Rightarrow> (Inl e, s)
      | Inr model \<Rightarrow>
          (case hasOwnProperty model ''extend'' of
             Inl e \<Rightarrow> (Inl e, s)
           | Inr has \<Rightarrow>
               if \<not> has then (Inr [], s\<lparr>adviceNotOptimize := True\<rparr>)
               else
                 (and_then (array_elems (own_prop model ''extend'')) (\<lambda>items.
                    extend_loop t items []),
                  s\<lparr>adviceOptimize := True\<rparr>)))"

subsection \<open>\<open>getDataOfProfileHelper\<close>\<close>

definition push :: "string list \<Rightarrow> error + string \<Rightarrow> panel \<Rightarrow> (error + string list) \<times> panel" where
  "push innerHTMLs r s =
     (case r of Inl e \<Rightarrow> (Inl e, s) | Inr fragment \<Rightarrow> (Inr (innerHTMLs @ [fragment]), s))"

text \<open>The \<open>if\<close> chain of the callback, for the field \<open>item\<close> with value \<open>v = res.data[item]\<close>.\<close>

definition render_item ::
    "i18n \<Rightarrow> string \<Rightarrow> jsval \<Rightarrow> panel \<Rightarrow> string list \<Rightarrow> (error + string list) \<times> panel" where
  "render_item t item v s innerHTMLs =
     (if endsWith item ''type_label'' \<and> item \<noteq> ''msadvisor-proposer_type_label'' then
        push innerHTMLs (title_item s item) s
      else if item \<in> set tipsArrayList then
        push innerHTMLs (tips_item t s item v) s
      else if item = ''minddata_device_queue'' then
        push innerHTMLs (queue_item s item v) s
      else if item = ''minddata_get_next_queue'' then
        push innerHTMLs (queue_item s item v) s
      else
        (case warning_guard item v of
           Inl e \<Rightarrow> (Inl e, s)
         | Inr guard \<Rightarrow>
             if guard then push innerHTMLs (warning_item s item) s
             else if item = ''msadvisor-proposer_type_label'' \<or> item = ''msadvisor-proposer'' then
               (if item = ''msadvisor-proposer'' then
                  (case getAdvisorProposer t v ''AICPUModel'' s of
                     (Inl e, s') \<Rightarrow> (Inl e, s')
                   | (Inr contents, s') \<Rightarrow>
                       (Inr innerHTMLs, set_innerHTML ''ms-advice-content'' (concat contents) s'))
                else (Inr innerHTMLs, s))
             else push innerHTMLs (anchor_or_default s item) s))"

text \<open>
  One call of the \<open>forEach\<close> callback: the assignment into the message table, the
  \<open>if\<close> chain, then the write of all fragments so far into \<open>helper-tips\<close>.
\<close>

definition record_item :: "string \<Rightarrow> jsval \<Rightarrow> panel \<Rightarrow> panel" where
  "record_item item v s =
     (if item \<notin> set tipsArrayList \<and> item \<notin> set moreParameter \<and> js_truthy v
      then s\<lparr>profiling := AList.update item v (profiling s)\<rparr> else s)"

definition process_item ::
    "i18n \<Rightarrow> jsval \<Rightarrow> string \<Rightarrow> panel \<Rightarrow> string list \<Rightarrow> (error + string list) \<times> panel" where
  "process_item t data item s innerHTMLs =
     (case js_get data item of
        Inl e \<Rightarrow> (Inl e, s)
      | Inr v \<Rightarrow>
          (case render_item t item v (record_item item v s) innerHTMLs of
             (Inl e, s') \<Rightarrow> (Inl e, s')
           | (Inr innerHTMLs', s') \<Rightarrow>
               (Inr innerHTMLs', set_innerHTML ''helper-tips'' (concat innerHTMLs') s')))"

text \<open>
  \<open>Object.keys(res.data).forEach(...)\<close> over the remaining keys.  The result is the
  error that ended the loop, if any, the state, and \<open>innerHTMLs\<close>.
\<close>

fun forEach_item ::
    "i18n \<Rightarrow> jsval \<Rightarrow> string list \<Rightarrow> panel \<Rightarrow> string list \<Rightarrow> error option \<times> panel \<times> string list" where
  "forEach_item t data [] s innerHTMLs = (None, s, innerHTMLs)"
| "forEach_item t data (item # items) s innerHTMLs =
     (case process_item t data item s innerHTMLs of
        (Inl e, s') \<Rightarrow> (Some e, s', innerHTMLs)
      | (Inr innerHTMLs', s') \<Rightarrow> forEach_item t data items s' innerHTMLs')"

text \<open>The \<open>then\<close> callback on the response \<open>res\<close>.\<close>

definition on_response :: "i18n \<Rightarrow> jsval \<Rightarrow> panel \<Rightarrow> error option \<times> panel \<times> string list" where
  "on_response t res s =
     (if js_truthy res \<and> js_truthy (own_prop res ''data'')
      then forEach_item t (own_prop res ''data'') (Object_keys (own_prop res ''data'')) s []
      else (None, s, []))"

text \<open>
  The request either fails or resolves with a response.  \<open>.catch(() => {})\<close> drops the
  failure of the request and any error thrown by the \<open>then\<close> callback.
\<close>

datatype request_outcome = Rejected | Resolved jsval

definition getDataOfProfileHelper :: "i18n \<Rightarrow> request_outcome \<Rightarrow> panel \<Rightarrow> panel" where
  "getDataOfProfileHelper t outcome s =
     (case outcome of
        Rejected \<Rightarrow> s
      | Resolved res \<Rightarrow> fst (snd (on_response t res s)))"

text \<open>The fragments and the error of a dispatch, for statements about them.\<close>

definition fragments_of :: "error option \<times> panel \<times> string list \<Rightarrow> string list" where
  "fragments_of r = snd (snd r)"

definition error_of :: "error option \<times> panel \<times> string list \<Rightarrow> error option" where
  "error_of r = fst r"

definition state_of :: "error option \<times> panel \<times> string list \<Rightarrow> panel" where
  "state_of r = fst (snd r)"

subsection \<open>The collapsible advice\<close>

definition adviceToShow :: "panel \<Rightarrow> panel" where
  "adviceToShow s = s\<lparr>adviceShow := (if adviceShow s = ''block'' then ''none'' else ''block'')\<rparr>"

definition adviceChange :: "panel \<Rightarrow> bool" where
  "adviceChange s = (if adviceShow s = ''block'' then True else False)"


section \<open>Notions used in the statements\<close>

text \<open>
  The two values \<open>adviceShow\<close> takes: \<open>data()\<close> sets \<open>'none'\<close> and \<open>adviceToShow\<close>
  is the only assignment to it.
\<close>

definition adviceShow_valid :: "panel \<Rightarrow> bool" where
  "adviceShow_valid s = (adviceShow s = ''none'' \<or> adviceShow s = ''block'')"

text \<open>
  A field name whose value the dispatch assigns into the message table, and two states
  that give the same descriptor to every field still to be processed, apart from the
  fields that are assigned first.
\<close>

definition recorded :: "jsval \<Rightarrow> string \<Rightarrow> bool" where
  "recorded data item =
     (item \<notin> set tipsArrayList \<and> item \<notin> set moreParameter \<and> js_truthy (own_prop data item))"


text \<open>The assignments to the \<open>innerHTML\<close> of \<open>helper-tips\<close>, in order.\<close>

definition helper_writes :: "panel \<Rightarrow> string list" where
  "helper_writes s = map snd (filter (\<lambda>w. fst w = ''helper-tips'') (innerHTML_writes s))"






subsection \<open>Example inputs\<close>

text \<open>
  A localization facility with a three-item ordinal list that otherwise answers with
  the path it was asked for, a freshly created panel over an empty message table, a
  message table with descriptors for the queue fields, and some responses.
\<close>

definition example_t :: i18n where
  "example_t path params =
     (if path = ''profiling.adviceDetails''
      then JArr [JStr ''First'', JStr ''Second'', JStr ''Third'']
      else JStr path)"

definition mounted_panel :: panel where
  "mounted_panel = created (panel_data [])"

definition queue_messages :: "(string \<times> jsval) list" where
  "queue_messages =
     [(''minddata_device_queue'', JObj [(''desc'', JStr ''{n1}/{n2} empty, {n3} of {n4} not'')]),
      (''minddata_get_next_queue'', JObj [(''desc'', JStr ''{n1}/{n2} empty, {n3} of {n4} not'')]),
      (''device_queue_warning'', JObj [(''desc'', JStr ''The queue was empty'')])]"

definition two_labels :: jsval where
  "two_labels =
     JObj [(''data'', JObj
       [(''step_trace-proposer_type_label'', JObj [(''desc'', JStr ''Step trace'')]),
        (''minddata_pipeline-proposer_type_label'', JObj [(''desc'', JStr ''Data pipeline'')])])]"




definition empty_warning_response :: jsval where
  "empty_warning_response = JObj [(''data'', JObj [(''device_queue_warning'', JArr [])])]"

definition negative_start_response :: jsval where
  "negative_start_response =
     JObj [(''data'', JObj [(''minddata_device_queue'', JArr [JNum (- 1), JNum 100])])]"

definition two_anchors_response :: jsval where
  "two_anchors_response =
     JObj [(''data'', JObj
       [(''common-profiler_tutorial'',
         JObj [(''desc'', JStr ''See the tutorial and the FAQ''),
               (''anchor'', JArr [JStr ''tutorial'', JStr ''FAQ'']),
               (''url'', JArr [JStr ''https://a.example/t'', JStr ''https://a.example/f''])])])]"

section \<open>The SVG wrapper: measured once, rendered when positive\<close>

lemma svg_resizes_ignored: "fold svg_handle (map ContainerResized rs) s = s"
  by (induction rs) simp_all

text \<open>
  Claim C9.  After \<open>mounted\<close> has measured the wrapper, the published width and height are
  the floors of the measured ones.  When a floored dimension is not positive the template
  produces no \<open>svg\<close> element; otherwise the element, its view box and the slot carry exactly
  the floored dimensions.  Later changes of the container's size leave the state as it is.
\<close>

theorem svg_frame_dimensions:
  "width (svg_mounted r svg_data) = \<lfloor>rect_width r\<rfloor> \<and>
   height (svg_mounted r svg_data) = \<lfloor>rect_height r\<rfloor> \<and>
   (\<lfloor>rect_width r\<rfloor> \<le> 0 \<or> \<lfloor>rect_height r\<rfloor> \<le> 0 \<longrightarrow>
      svg_render (svg_mounted r svg_data) = None) \<and>
   (0 < \<lfloor>rect_width r\<rfloor> \<and> 0 < \<lfloor>rect_height r\<rfloor> \<longrightarrow>
      svg_render (svg_mounted r svg_data) =
        Some \<lparr>attr_width = \<lfloor>rect_width r\<rfloor>, attr_height = \<lfloor>rect_height r\<rfloor>,
              viewBox = ''0 0 '' @ show_int \<lfloor>rect_width r\<rfloor> @ '' '' @ show_int \<lfloor>rect_height r\<rfloor>,
              slot_width = \<lfloor>rect_width r\<rfloor>, slot_height = \<lfloor>rect_height r\<rfloor>\<rparr>) \<and>
   fold svg_handle (Mounted r # map ContainerResized rs) svg_data = svg_mounted r svg_data"
  by (simp add: svg_mounted_def svg_render_def svg_resizes_ignored)

theorem svg_frame_dimensions_witness:
  "svg_render (svg_mounted \<lparr>rect_width = 1007 / 10, rect_height = 1 / 2\<rparr> svg_data) = None \<and>
   svg_render (svg_mounted \<lparr>rect_width = 1007 / 10, rect_height = 101 / 2\<rparr> svg_data) =
     Some \<lparr>attr_width = 100, attr_height = 50, viewBox = ''0 0 100 50'',
           slot_width = 100, slot_height = 50\<rparr>"
  using svg_frame_dimensions [of "\<lparr>rect_width = 1007 / 10, rect_height = 1 / 2\<rparr>" "[]"]
    svg_frame_dimensions [of "\<lparr>rect_width = 1007 / 10, rect_height = 101 / 2\<rparr>" "[]"]
  by (simp add: show_int_def show_nat.simps)


section \<open>Basic facts about the dispatch\<close>

lemma error_is_TypeError: "(e :: error) = TypeError"
  by (cases e) simp

lemma and_then_simps [simp]:
  "and_then (Inl e) f = Inl e"
  "and_then (Inr x) f = f x"
  by (simp_all add: and_then_def)

lemma and_then_throws: "(\<And>x. f x = Inl TypeError) \<Longrightarrow> and_then m f = Inl TypeError"
  by (cases m) (simp_all add: error_is_TypeError)

text \<open>The loop over the anchors never completes an iteration.\<close>

lemma anchor_loop_throws:
  "anchor_loop s item anchorList i anchorContent =
     (if js_lt (JNum (int i)) (own_prop anchorList ''length'') then Inl TypeError
      else Inr anchorContent)"
  by (subst anchor_loop.simps) (simp add: and_then_throws relpace_def)

subsection \<open>What each step leaves unchanged\<close>

lemma set_innerHTML_frame [simp]:
  "profiling (set_innerHTML i h s) = profiling s"
  "helperUrl (set_innerHTML i h s) = helperUrl s"
  "adviceShow (set_innerHTML i h s) = adviceShow s"
  "adviceOptimize (set_innerHTML i h s) = adviceOptimize s"
  "adviceNotOptimize (set_innerHTML i h s) = adviceNotOptimize s"
  by (simp_all add: set_innerHTML_def split: option.splits)

lemma profiling_item_set_innerHTML [simp]:
  "profiling_item (set_innerHTML i h s) k = profiling_item s k"
  by (simp add: profiling_item_def)

lemma push_snd [simp]: "snd (push h r s) = s"
  by (simp add: push_def split: sum.splits)

lemma getAdvisorProposer_frame [simp]:
  "profiling (snd (getAdvisorProposer t d i s)) = profiling s"
  "helperUrl (snd (getAdvisorProposer t d i s)) = helperUrl s"
  "adviceShow (snd (getAdvisorProposer t d i s)) = adviceShow s"
  "elements (snd (getAdvisorProposer t d i s)) = elements s"
  "innerHTML_writes (snd (getAdvisorProposer t d i s)) = innerHTML_writes s"
  by (simp_all add: getAdvisorProposer_def split: sum.splits)


lemma render_item_frame [simp]:
  "profiling (snd (render_item t item v s h)) = profiling s"
  "helperUrl (snd (render_item t item v s h)) = helperUrl s"
  "adviceShow (snd (render_item t item v s h)) = adviceShow s"
proof -
  obtain r s' where g: "getAdvisorProposer t v ''AICPUModel'' s = (r, s')"
    by (cases "getAdvisorProposer t v ''AICPUModel'' s")
  have "profiling s' = profiling s" "helperUrl s' = helperUrl s" "adviceShow s' = adviceShow s"
    using getAdvisorProposer_frame [of t v "''AICPUModel''" s] by (simp_all add: g)
  then show "profiling (snd (render_item t item v s h)) = profiling s"
    "helperUrl (snd (render_item t item v s h)) = helperUrl s"
    "adviceShow (snd (render_item t item v s h)) = adviceShow s"
    by (simp_all add: render_item_def g split: sum.splits)
qed

lemma profiling_item_record_item:
  "profiling_item (record_item item v s) k =
     (if item \<notin> set tipsArrayList \<and> item \<notin> set moreParameter \<and> js_truthy v \<and> k = item
      then v else profiling_item s k)"
  by (simp add: record_item_def profiling_item_def update_conv')

lemma record_item_frame [simp]:
  "helperUrl (record_item item v s) = helperUrl s"
  "adviceShow (record_item item v s) = adviceShow s"
  "elements (record_item item v s) = elements s"
  "innerHTML_writes (record_item item v s) = innerHTML_writes s"
  by (simp_all add: record_item_def)


lemma process_item_frame:
  "profiling_item (snd (process_item t data k s h)) k' =
     (if nullish data then profiling_item s k'
      else profiling_item (record_item k (own_prop data k) s) k')"
  "helperUrl (snd (process_item t data k s h)) = helperUrl s"
  "adviceShow (snd (process_item t data k s h)) = adviceShow s"
proof -
  obtain r s' where g: "render_item t k (own_prop data k) (record_item k (own_prop data k) s) h = (r, s')"
    by (cases "render_item t k (own_prop data k) (record_item k (own_prop data k) s) h")
  have "profiling s' = profiling (record_item k (own_prop data k) s)" "helperUrl s' = helperUrl s"
    "adviceShow s' = adviceShow s"
    using render_item_frame [of t k "own_prop data k" "record_item k (own_prop data k) s" h]
    by (simp_all add: g)
  then show "profiling_item (snd (process_item t data k s h)) k' =
     (if nullish data then profiling_item s k'
      else profiling_item (record_item k (own_prop data k) s) k')"
    "helperUrl (snd (process_item t data k s h)) = helperUrl s"
    "adviceShow (snd (process_item t data k s h)) = adviceShow s"
    by (simp_all add: process_item_def js_get_def g profiling_item_def split: sum.splits)
qed

lemma forEach_item_frame:
  "helperUrl (state_of (forEach_item t data ks s h)) = helperUrl s \<and>
   adviceShow (state_of (forEach_item t data ks s h)) = adviceShow s \<and>
   (\<not> recorded data k \<longrightarrow>
      profiling_item (state_of (forEach_item t data ks s h)) k = profiling_item s k)"
proof (induction ks arbitrary: s h)
  case Nil
  then show ?case by (simp add: state_of_def)
next
  case (Cons x ks)
  obtain r s' where p: "process_item t data x s h = (r, s')"
    by (cases "process_item t data x s h")
  have f: "helperUrl s' = helperUrl s" "adviceShow s' = adviceShow s"
    "\<not> recorded data k \<Longrightarrow> profiling_item s' k = profiling_item s k"
    using process_item_frame [of t data x s h] 
    by (auto simp: p profiling_item_record_item recorded_def)
  show ?case
  proof (cases r)
    case (Inl e)
    with f show ?thesis by (simp add: p state_of_def)
  next
    case (Inr h')
    with f Cons.IH [of s' h'] show ?thesis by (simp add: p)
  qed
qed

subsection \<open>Writes to the containers\<close>

lemma set_innerHTML_other:
  "i \<noteq> ''helper-tips'' \<Longrightarrow> helper_writes (set_innerHTML i html s) = helper_writes s"
  "i \<noteq> ''helper-tips'' \<Longrightarrow> innerHTML (set_innerHTML i html s) ''helper-tips'' = innerHTML s ''helper-tips''"
  by (simp_all add: set_innerHTML_def helper_writes_def innerHTML_def update_conv' split: option.splits)

lemma set_innerHTML_helper:
  "innerHTML s ''helper-tips'' \<noteq> None \<Longrightarrow>
     helper_writes (set_innerHTML ''helper-tips'' html s) = helper_writes s @ [html] \<and>
     innerHTML (set_innerHTML ''helper-tips'' html s) ''helper-tips'' = Some html"
  by (auto simp: set_innerHTML_def helper_writes_def innerHTML_def update_conv' split: option.splits)

lemma render_item_helper_tips:
  "helper_writes (snd (render_item t item v s h)) = helper_writes s"
  "innerHTML (snd (render_item t item v s h)) ''helper-tips'' = innerHTML s ''helper-tips''"
proof -
  obtain r s' where g: "getAdvisorProposer t v ''AICPUModel'' s = (r, s')"
    by (cases "getAdvisorProposer t v ''AICPUModel'' s")
  have f: "elements s' = elements s" "innerHTML_writes s' = innerHTML_writes s"
    using getAdvisorProposer_frame [of t v "''AICPUModel''" s] by (simp_all add: g)
  then have f': "helper_writes s' = helper_writes s"
    "innerHTML s' ''helper-tips'' = innerHTML s ''helper-tips''"
    by (simp_all add: helper_writes_def innerHTML_def)
  show "helper_writes (snd (render_item t item v s h)) = helper_writes s"
    "innerHTML (snd (render_item t item v s h)) ''helper-tips'' = innerHTML s ''helper-tips''"
    by (simp_all add: render_item_def g f' set_innerHTML_other split: sum.splits)
qed



lemma process_item_writes:
  assumes "process_item t data item s h = (Inr h', s')" and "innerHTML s ''helper-tips'' \<noteq> None"
  shows "helper_writes s' = helper_writes s @ [concat h'] \<and>
         innerHTML s' ''helper-tips'' = Some (concat h')"
proof -
  let ?v = "own_prop data item"
  let ?s = "record_item item ?v s"
  obtain r s1 where g: "render_item t item ?v ?s h = (r, s1)"
    by (cases "render_item t item ?v ?s h")
  from assms(1) have nn: "\<not> nullish data"
    by (auto simp: process_item_def js_get_def)
  with assms(1) g have r: "r = Inr h'" and s': "s' = set_innerHTML ''helper-tips'' (concat h') s1"
    by (auto simp: process_item_def js_get_def split: sum.splits)
  have "helper_writes s1 = helper_writes s" "innerHTML s1 ''helper-tips'' = innerHTML s ''helper-tips''"
    using render_item_helper_tips [of t item ?v ?s h]
    by (simp_all add: g helper_writes_def innerHTML_def)
  with assms(2) set_innerHTML_helper [of s1 "concat h'"] show ?thesis
    by (simp add: s')
qed


subsection \<open>The outcome depends on the descriptor of the field only\<close>




subsection \<open>Numbers and pairs\<close>

lemma index_0_1:
  "own_prop (JArr (x # xs)) ''0'' = x"
  "own_prop (JArr (x # y # xs)) ''1'' = y"
  by (simp_all add: index_of_def show_nat.simps upt_rec)

lemma destructure_pair_array: "destructure_pair (JArr [x, y]) = Inr (x, y)"
  by (simp add: destructure_pair_def index_0_1 del: own_prop.simps)

lemma js_ge_zero: "js_ge (JNum a) (JNum 0) = (0 \<le> a)"
  by (auto simp: js_ge_def rel_lt_def ToPrimitive_def ToNumber_def)


lemma StringToNumber_dash: "StringToNumber ''--'' = None"
  by (simp add: StringToNumber_def trim_def is_ws_def digits_val_def)

section \<open>Anchored descriptors\<close>

text \<open>
  With one anchor the description is wrapped in a link to the first URL.  With two or
  more the dispatch throws: the loop calls \<open>relpace\<close>, which no string has.
\<close>

lemma single_anchor_wraps:
  assumes "own_prop (profiling_item s item) ''anchor'' = JArr [a]"
    and "\<not> nullish (own_prop (profiling_item s item) (helperUrl s))"
  shows "anchor_or_default s item =
     Inr (anchor_single_fragment
       (ToString (own_prop (own_prop (profiling_item s item) (helperUrl s)) ''0''))
       (ToString (own_prop (profiling_item s item) ''desc'')))"
proof -
  from assms(1) have nn: "\<not> nullish (profiling_item s item)"
    by (cases "profiling_item s item") auto
  with assms show ?thesis
    by (simp add: anchor_or_default_def anchor_item_def js_get_def)
qed

lemma multiple_anchors_throw:
  assumes "own_prop (profiling_item s item) ''anchor'' = JArr anchors" and "2 \<le> length anchors"
  shows "anchor_or_default s item = Inl TypeError"
proof -
  from assms(1) have nn: "\<not> nullish (profiling_item s item)"
    by (cases "profiling_item s item") auto
  have lt: "js_lt (JNum 0) (JNum (int (length anchors)))"
    using assms(2) by (cases anchors) (simp_all add: js_lt_def rel_lt_def ToPrimitive_def ToNumber_def)
  from assms nn lt show ?thesis
    by (simp add: anchor_or_default_def anchor_item_def js_get_def anchor_loop_throws)
qed

text \<open>
  Claim C1, evaluated on a response whose only field comes with a descriptor of two
  anchors and two URLs: the dispatch ends with a \<open>TypeError\<close>, no fragment is emitted
  and \<open>helper-tips\<close> stays empty, where the claim has each anchor replaced by a link and
  a fragment emitted.
\<close>

theorem two_anchors_throw:
  "error_of (on_response t two_anchors_response (created (panel_data []))) = Some TypeError \<and>
   fragments_of (on_response t two_anchors_response (created (panel_data []))) = [] \<and>
   innerHTML (getDataOfProfileHelper t (Resolved two_anchors_response) (created (panel_data [])))
     ''helper-tips'' = Some []"
  by code_simp

section \<open>The empty warning list\<close>

text \<open>
  Claim C2, evaluated on the response \<open>{device_queue_warning: []}\<close> over a message
  table that has a descriptor for that field: the guard on the length fails, the chain
  goes on to its last branch and the descriptor's text is emitted as a plain fragment,
  where the claim has no fragment.
\<close>

theorem empty_warning_list_falls_through:
  "fragments_of (on_response t empty_warning_response (created (panel_data queue_messages))) =
     [default_fragment ''The queue was empty''] \<and>
   innerHTML (getDataOfProfileHelper t (Resolved empty_warning_response)
       (created (panel_data queue_messages))) ''helper-tips'' =
     Some (default_fragment ''The queue was empty'')"
  by code_simp

section \<open>The queue pairs\<close>

text \<open>
  For a pair of numbers, a negative one is shown as the dash, and the third placeholder
  is the difference when both are shown as numbers; otherwise the subtraction has the
  dash as an operand and yields \<open>NaN\<close>.
\<close>

lemma queue_item_numbers:
  "queue_item s item (JArr [JNum a, JNum b]) =
     and_then (js_get (profiling_item s item) ''desc'') (\<lambda>desc.
       Inr (content_fragment
         (js_replace
           (js_replace
             (js_replace
               (js_replace (ToString desc)
                 ''{n1}'' (nowrap (if 0 \<le> a then show_int a else ''--'')))
               ''{n2}'' (nowrap (if 0 \<le> b then show_int b else ''--'')))
             ''{n3}'' (nowrap (if 0 \<le> a \<and> 0 \<le> b then show_int (b - a) else ''NaN'')))
           ''{n4}'' (nowrap (if 0 \<le> b then show_int b else ''--'')))))"
  by (simp add: queue_item_def destructure_pair_array or_dash_def js_ge_zero js_sub_def
      ToNumber_def ToPrimitive_def StringToNumber_dash num_str_def Let_def)

text \<open>
  Claim C3, evaluated on \<open>minddata_device_queue: [-1, 100]\<close>: the start is shown as
  the dash, and the delta is computed as \<open>100 - '--'\<close> and shown as \<open>NaN\<close>, where the
  claim has it never computed from the dash.
\<close>

theorem negative_start_delta_is_NaN:
  "fragments_of (on_response t negative_start_response (created (panel_data queue_messages))) =
     [content_fragment
        (nowrap ''--'' @ ''/'' @ nowrap ''100'' @ '' empty, '' @ nowrap ''NaN'' @ '' of '' @
         nowrap ''100'' @ '' not'')] \<and>
   num_str (js_sub (JNum 100) (JStr ''--'')) = ''NaN''"
  by code_simp

section \<open>The advisor proposer\<close>








section \<open>When the containers are written\<close>

text \<open>
  Claim C5 as stated fails: for a response of two fields \<open>helper-tips\<close> is written
  twice, the first time after the first field with that field's fragment alone.
\<close>

theorem helper_tips_write_counterexample:
  "innerHTML_writes (getDataOfProfileHelper example_t (Resolved two_labels) mounted_panel) =
     [(''helper-tips'', title_fragment ''Step trace''),
      (''helper-tips'', title_fragment ''Step trace'' @ title_fragment ''Data pipeline'')]"
  by code_simp

text \<open>
  Claim C5, amended.  While the fields of a response are processed without an error and
  the element \<open>helper-tips\<close> exists, it is written once after each field, each time
  with the concatenation of all fragments emitted so far; after the last field it holds
  the concatenation of the full fragment list.
\<close>

theorem helper_tips_written_per_field:
  "forEach_item t data items s h = (None, s', h') \<and> innerHTML s ''helper-tips'' \<noteq> None \<longrightarrow>
     helper_writes s' =
       helper_writes s @
       map (\<lambda>k. concat (fragments_of (forEach_item t data (take (Suc k) items) s h)))
         [0..<length items] \<and>
     (items \<noteq> [] \<longrightarrow> innerHTML s' ''helper-tips'' = Some (concat h'))"
proof (induction items arbitrary: s h)
  case Nil
  then show ?case by auto
next
  case (Cons x xs)
  show ?case
  proof
    assume a: "forEach_item t data (x # xs) s h = (None, s', h') \<and> innerHTML s ''helper-tips'' \<noteq> None"
    obtain r s1 where p: "process_item t data x s h = (r, s1)"
      by (cases "process_item t data x s h")
    from a p obtain h1 where r: "r = Inr h1"
      by (cases r) auto
    from a p r have rest: "forEach_item t data xs s1 h1 = (None, s', h')"
      by simp
    from process_item_writes [of t data x s h h1 s1] a p r
    have w: "helper_writes s1 = helper_writes s @ [concat h1]"
      and i: "innerHTML s1 ''helper-tips'' = Some (concat h1)"
      by simp_all
    from Cons.IH [of s1 h1] rest i
    have ih: "helper_writes s' =
        helper_writes s1 @
        map (\<lambda>k. concat (fragments_of (forEach_item t data (take (Suc k) xs) s1 h1)))
          [0..<length xs]"
      and ih': "xs \<noteq> [] \<longrightarrow> innerHTML s' ''helper-tips'' = Some (concat h')"
      by simp_all
    have last: "innerHTML s' ''helper-tips'' = Some (concat h')"
    proof (cases xs)
      case Nil
      with rest i show ?thesis by simp
    next
      case (Cons y ys)
      with ih' show ?thesis by simp
    qed
    have "map (\<lambda>k. concat (fragments_of (forEach_item t data (take (Suc k) (x # xs)) s h)))
          [0..<length (x # xs)] =
        concat h1 #
        map (\<lambda>k. concat (fragments_of (forEach_item t data (take (Suc k) xs) s1 h1)))
          [0..<length xs]"
      by (simp add: map_upt_Suc p r fragments_of_def del: upt_Suc)
    with ih w last show "helper_writes s' =
       helper_writes s @
       map (\<lambda>k. concat (fragments_of (forEach_item t data (take (Suc k) (x # xs)) s h)))
         [0..<length (x # xs)] \<and>
     (x # xs \<noteq> [] \<longrightarrow> innerHTML s' ''helper-tips'' = Some (concat h'))"
      by simp
  qed
qed

theorem helper_tips_written_per_field_witness:
  "helper_writes (state_of (on_response example_t two_labels mounted_panel)) =
     [title_fragment ''Step trace'',
      title_fragment ''Step trace'' @ title_fragment ''Data pipeline''] \<and>
   innerHTML (state_of (on_response example_t two_labels mounted_panel)) ''helper-tips'' =
     Some (title_fragment ''Step trace'' @ title_fragment ''Data pipeline'')"
proof -
  let ?d = "own_prop two_labels ''data''"
  let ?r = "forEach_item example_t ?d (Object_keys ?d) mounted_panel []"
  have run: "on_response example_t two_labels mounted_panel = ?r"
    by code_simp
  have "error_of ?r = None"
    by code_simp
  then have 1: "?r = (None, state_of ?r, fragments_of ?r)"
    by (cases ?r) (simp add: error_of_def state_of_def fragments_of_def)
  have 2: "innerHTML mounted_panel ''helper-tips'' \<noteq> None"
    by code_simp
  have 3: "Object_keys ?d \<noteq> []"
    by code_simp
  have 4: "helper_writes mounted_panel @
      map (\<lambda>k. concat (fragments_of
        (forEach_item example_t ?d (take (Suc k) (Object_keys ?d)) mounted_panel [])))
        [0..<length (Object_keys ?d)] =
      [title_fragment ''Step trace'',
       title_fragment ''Step trace'' @ title_fragment ''Data pipeline'']"
    by code_simp
  have 5: "concat (fragments_of ?r) = title_fragment ''Step trace'' @ title_fragment ''Data pipeline''"
    by code_simp
  from helper_tips_written_per_field [where t = example_t and data = ?d
      and items = "Object_keys ?d" and s = mounted_panel and h = "[]"
      and s' = "state_of ?r" and h' = "fragments_of ?r"] 1 2 3
  have "helper_writes (state_of ?r) =
       helper_writes mounted_panel @
       map (\<lambda>k. concat (fragments_of
         (forEach_item example_t ?d (take (Suc k) (Object_keys ?d)) mounted_panel [])))
         [0..<length (Object_keys ?d)] \<and>
      innerHTML (state_of ?r) ''helper-tips'' = Some (concat (fragments_of ?r))"
    by blast
  then show ?thesis
    by (simp only: run 4 5)
qed




section \<open>Dispatching a response twice\<close>



section \<open>The queue rate\<close>



section \<open>The collapsible advice\<close>

text \<open>Every state the panel reaches has one of the two values in \<open>adviceShow\<close>.\<close>

lemma adviceShow_valid_init: "adviceShow_valid (created (panel_data messages))"
  by (simp add: adviceShow_valid_def created_def panel_data_def)

lemma adviceShow_valid_fetch:
  "adviceShow_valid s \<Longrightarrow> adviceShow_valid (getDataOfProfileHelper t outcome s)"
  using forEach_item_frame [of t "own_prop res ''data''" "Object_keys (own_prop res ''data'')" s "[]" for res]
  by (cases outcome)
    (simp_all add: adviceShow_valid_def getDataOfProfileHelper_def on_response_def state_of_def)

lemma adviceShow_valid_toggle: "adviceShow_valid s \<Longrightarrow> adviceShow_valid (adviceToShow s)"
  by (simp add: adviceShow_valid_def adviceToShow_def)

text \<open>
  Claim C10.  In such a state \<open>adviceToShow\<close> applied twice gives the state back, one
  application changes \<open>adviceShow\<close> and flips \<open>adviceChange\<close>, and \<open>adviceChange\<close> is
  true exactly when \<open>adviceShow\<close> is \<open>'block'\<close>.
\<close>

theorem advice_toggle_involution:
  "adviceShow_valid s \<Longrightarrow>
     adviceToShow (adviceToShow s) = s \<and>
     adviceShow (adviceToShow s) \<noteq> adviceShow s \<and>
     adviceChange (adviceToShow s) = (\<not> adviceChange s) \<and>
     adviceChange s = (adviceShow s = ''block'')"
  by (auto simp: adviceShow_valid_def adviceToShow_def adviceChange_def)

theorem advice_toggle_involution_witness:
  "adviceToShow (adviceToShow (created (panel_data []))) = created (panel_data []) \<and>
   adviceChange (adviceToShow (created (panel_data []))) \<and>
   \<not> adviceChange (created (panel_data []))"
  using advice_toggle_involution [of "created (panel_data [])"]
  by (simp add: adviceShow_valid_def created_def panel_data_def)

end
